theory Spec2Isabelle
  imports Main "HOL-Library.Sublist"
begin

section \<open>Python values\<close>

text \<open>
  The job scraper (\<^verbatim>\<open>main.py\<close>) and its scorer (\<^verbatim>\<open>fetchOpenAi.py\<close>) handle
  values decoded from JSON. They are modelled by the datatype \<open>json\<close>: \<open>JNull\<close> is
  Python's \<^verbatim>\<open>None\<close>, \<open>JObj\<close> a \<^verbatim>\<open>dict\<close> in insertion order (its keys are distinct,
  as the decoder produces them), \<open>JArr\<close> a \<^verbatim>\<open>list\<close>. JSON numbers with a fraction or an
  exponent (Python floats) are not part of the model. A Python \<^verbatim>\<open>str\<close> is a \<open>string\<close>
  whose characters stand for the code points below 256.
\<close>

datatype json =
    JNull
  | JBool bool
  | JInt int
  | JStr string
  | JArr "json list"
  | JObj "(string \<times> json) list"

text \<open>The exceptions that the two modules can meet.\<close>

datatype exn =
    ValueError string
  | AttributeError
  | TypeError
  | IndexError
  | OSError
  | RequestException
  | JSONDecodeError
  | APIError
  | UnicodeEncodeError
  | UnicodeDecodeError
  | RecursionError

subsection \<open>Strings\<close>

text \<open>\<^verbatim>\<open>str.isspace\<close> on one character, for the code points below 256.\<close>

definition isspace :: "char \<Rightarrow> bool" where
  "isspace c =
     (let n = (of_char c :: nat)
      in (9 \<le> n \<and> n \<le> 13) \<or> (28 \<le> n \<and> n \<le> 32) \<or> n = 133 \<or> n = 160)"

text \<open>\<^verbatim>\<open>s.strip()\<close>: leading and trailing whitespace removed.\<close>

definition py_strip :: "string \<Rightarrow> string" where
  "py_strip s = rev (dropWhile isspace (rev (dropWhile isspace s)))"

text \<open>
  The decimal digits, and the characters \<^verbatim>\<open>str.isdigit\<close> accepts: below 256 these are
  the ten decimal digits and the superscripts two, three and one (U+00B2, U+00B3, U+00B9).
\<close>

definition is_decimal :: "char \<Rightarrow> bool" where
  "is_decimal c = (let n = (of_char c :: nat) in 48 \<le> n \<and> n \<le> 57)"

definition isdigit_char :: "char \<Rightarrow> bool" where
  "isdigit_char c = (is_decimal c \<or> c = CHR 0xB2 \<or> c = CHR 0xB3 \<or> c = CHR 0xB9)"

text \<open>\<^verbatim>\<open>s.isdigit()\<close>: the string is not empty and every character is a digit.\<close>

definition py_isdigit :: "string \<Rightarrow> bool" where
  "py_isdigit s = (s \<noteq> [] \<and> list_all isdigit_char s)"

text \<open>The number a string of decimal digits denotes.\<close>

definition digit_value :: "char \<Rightarrow> int" where
  "digit_value c = int (of_char c) - 48"

definition decimal_value :: "string \<Rightarrow> int" where
  "decimal_value s = foldl (\<lambda>a c. 10 * a + digit_value c) 0 s"

text \<open>
  \<^verbatim>\<open>int(s)\<close> at its one call site, where \<open>s\<close> has passed \<^verbatim>\<open>isdigit\<close>: the value of
  a string of decimal digits, and \<^verbatim>\<open>ValueError\<close> for a string with a superscript
  digit. Python integers are unbounded, so is the result. The interpreter's bound on the
  length of the string that \<^verbatim>\<open>int\<close> converts (4300 digits by default, from Python 3.11
  on) is taken to be out of reach: the scorer asks the language model for 10 tokens at most.
\<close>

definition py_int :: "string \<Rightarrow> exn + int" where
  "py_int s =
     (if s \<noteq> [] \<and> list_all is_decimal s then Inr (decimal_value s)
      else Inl (ValueError ''invalid literal for int() with base 10''))"

text \<open>\<^verbatim>\<open>sep.join(xs)\<close>.\<close>

definition join :: "string \<Rightarrow> string list \<Rightarrow> string" where
  "join sep xs = concat (case xs of [] \<Rightarrow> [] | y # ys \<Rightarrow> y # map (\<lambda>z. sep @ z) ys)"

text \<open>\<^verbatim>\<open>str\<close> of a natural number, in decimal.\<close>

fun show_nat :: "nat \<Rightarrow> string" where
  "show_nat n =
     (if n < 10 then [''0123456789'' ! n]
      else show_nat (n div 10) @ [''0123456789'' ! (n mod 10)])"

declare show_nat.simps [simp del]

definition show_int :: "int \<Rightarrow> string" where
  "show_int n = (if n < 0 then ''-'' @ show_nat (nat (- n)) else show_nat (nat n))"

text \<open>
  \<^verbatim>\<open>repr\<close> of a string: the quote is a double quote when the string holds a single
  quote and no double quote, and a single quote otherwise; the backslash, the chosen quote,
  tab, newline and carriage return are escaped, the other characters that are not printable
  are written \<^verbatim>\<open>\xNN\<close>.
\<close>

definition hex2 :: "nat \<Rightarrow> string" where
  "hex2 n = [''0123456789abcdef'' ! ((n div 16) mod 16), ''0123456789abcdef'' ! (n mod 16)]"

definition repr_char :: "char \<Rightarrow> char \<Rightarrow> string" where
  "repr_char q c =
     (let n = (of_char c :: nat)
      in if c = CHR 0x5C then [CHR 0x5C, CHR 0x5C]
         else if c = q then [CHR 0x5C, q]
         else if n = 9 then [CHR 0x5C, CHR ''t'']
         else if n = 10 then [CHR 0x5C, CHR ''n'']
         else if n = 13 then [CHR 0x5C, CHR ''r'']
         else if n < 32 \<or> n = 127 \<or> (128 \<le> n \<and> n \<le> 160) \<or> n = 173
           then [CHR 0x5C, CHR ''x''] @ hex2 n
         else [c])"

definition repr_str :: "string \<Rightarrow> string" where
  "repr_str s =
     (let q = (if CHR 0x27 \<in> set s \<and> CHR 0x22 \<notin> set s then CHR 0x22 else CHR 0x27)
      in [q] @ concat (map (repr_char q) s) @ [q])"

fun py_repr :: "json \<Rightarrow> string" where
  "py_repr JNull = ''None''"
| "py_repr (JBool b) = (if b then ''True'' else ''False'')"
| "py_repr (JInt n) = show_int n"
| "py_repr (JStr s) = repr_str s"
| "py_repr (JArr xs) = ''['' @ join '', '' (map py_repr xs) @ '']''"
| "py_repr (JObj kvs) =
     ''{'' @ join '', '' (map (\<lambda>(k, v). repr_str k @ '': '' @ py_repr v) kvs) @ ''}''"

text \<open>What an f-string writes for a value: a string as it is, anything else as its \<^verbatim>\<open>repr\<close>.\<close>

definition py_str :: "json \<Rightarrow> string" where
  "py_str v = (case v of JStr s \<Rightarrow> s | _ \<Rightarrow> py_repr v)"

subsection \<open>Dictionaries, lengths, iteration\<close>

text \<open>\<^verbatim>\<open>d.get(k, default)\<close>.\<close>

definition dict_get :: "(string \<times> json) list \<Rightarrow> string \<Rightarrow> json \<Rightarrow> json" where
  "dict_get d k dflt = (case map_of d k of None \<Rightarrow> dflt | Some v \<Rightarrow> v)"

text \<open>\<^verbatim>\<open>len(v)\<close>: strings, lists and dicts have a length, the other values raise.\<close>

definition py_len :: "json \<Rightarrow> exn + nat" where
  "py_len v =
     (case v of
        JStr s \<Rightarrow> Inr (length s)
      | JArr xs \<Rightarrow> Inr (length xs)
      | JObj kvs \<Rightarrow> Inr (length kvs)
      | _ \<Rightarrow> Inl TypeError)"

text \<open>
  The items a \<^verbatim>\<open>for\<close> loop visits: the elements of a list, the characters of a string,
  the keys of a dict.
\<close>

definition py_iter :: "json \<Rightarrow> json list" where
  "py_iter v =
     (case v of
        JArr xs \<Rightarrow> xs
      | JStr s \<Rightarrow> map (\<lambda>c. JStr [c]) s
      | JObj kvs \<Rightarrow> map (\<lambda>kv. JStr (fst kv)) kvs
      | _ \<Rightarrow> [])"

section \<open>The job source: query parameters and deep links\<close>

definition base_url :: string where
  "base_url = ''https://northeastern-csm.symplicity.com''"

definition api_url :: string where
  "api_url = base_url @ ''/api/v2/jobs''"

definition job_url_template :: string where
  "job_url_template = base_url @ ''/students/app/jobs/search''"

text \<open>\<^verbatim>\<open>self.params\<close>, the query of the fetch.\<close>

definition params :: "(string \<times> json) list" where
  "params =
     [(''perPage'', JInt 100),
      (''page'', JInt 0),
      (''sort'', JStr ''!postdate''),
      (''ocr'', JStr ''f''),
      (''job_type'', JInt 5),
      (''industry'', JStr ''112,147,24,109,83,116,141,142,143,89,105,104,97''),
      (''postdate'', JInt 7),
      (''json_mode'', JStr ''read_only''),
      (''enable_translation'', JBool False)]"

text \<open>\<^verbatim>\<open>url_params\<close> of \<^verbatim>\<open>generate_job_url\<close>.\<close>

definition url_params :: "json \<Rightarrow> (string \<times> json) list" where
  "url_params job_id =
     [(''perPage'', JInt 100),
      (''page'', JInt 1),
      (''sort'', JStr ''!postdate''),
      (''ocr'', JStr ''f''),
      (''job_type'', JInt 5),
      (''industry'', JStr ''112,147,24,109,83,116,141,142,143,89,105,104,97''),
      (''postdate'', JInt 7),
      (''currentJobId'', job_id)]"

definition generate_job_url :: "json \<Rightarrow> string" where
  "generate_job_url job_id =
     job_url_template @ ''?'' @
     join ''&'' (map (\<lambda>(k, v). k @ ''='' @ py_str v) (url_params job_id))"

section \<open>The outside world and the state of a run\<close>

text \<open>
  What the program reads from outside is a parameter of the model:
  \<^item> \<open>load_dotenv\<close>: the exception that \<^verbatim>\<open>load_dotenv()\<close> raises, if any (a
    \<^verbatim>\<open>.env\<close> file that cannot be read or decoded);
  \<^item> \<open>environ\<close>: the environment after \<^verbatim>\<open>load_dotenv()\<close>;
  \<^item> \<open>http_get\<close>: what the one \<^verbatim>\<open>requests.get\<close> yields, either a
    \<^verbatim>\<open>RequestException\<close> before any response (connection failure, timeout), or a response
    with its status code and its body, \<open>None\<close> for a body that \<^verbatim>\<open>response.json()\<close>
    cannot decode, or any other exception that leaves \<^verbatim>\<open>requests.get\<close> or
    \<^verbatim>\<open>response.json()\<close> (\<^verbatim>\<open>UnicodeEncodeError\<close> for a cookie that is not Latin-1,
    \<^verbatim>\<open>RecursionError\<close> for a body nested too deep);
  \<^item> \<open>chat_completion\<close>: what the language-model call yields for the job prompt, which
    may differ from call to call (the argument is the number of calls made before): an
    exception, or a response with the \<^verbatim>\<open>message.content\<close> of each of its choices;
  \<^item> \<open>disk\<close>: the outcome of each attempt to write a file, by the place of the write:
    the file is written, or \<^verbatim>\<open>open\<close> raises \<^verbatim>\<open>OSError\<close>, or the write raises it once
    the file is open, or \<^verbatim>\<open>json.dump\<close> raises an exception of its own, which is not an
    \<^verbatim>\<open>IOError\<close> (\<^verbatim>\<open>UnicodeEncodeError\<close> for a string that the encoding of the file
    cannot express, such as a lone surrogate decoded from the body, which lies outside the
    strings of the model; \<^verbatim>\<open>RecursionError\<close> for a document nested too deep).
\<close>

datatype http_outcome = Connection_error | Response nat "json option" | Request_raises exn

datatype api_outcome = Api_raises | Api_returns "string option list"

datatype write_site = Raw_snapshot | Incremental nat | Final_list

datatype io_outcome = Written | Open_fails | Write_fails | Dump_raises exn

record world =
  load_dotenv :: "exn option"
  environ :: "string \<rightharpoonup> string"
  http_get :: http_outcome
  chat_completion :: "nat \<Rightarrow> string \<Rightarrow> api_outcome"
  disk :: "write_site \<Rightarrow> io_outcome"

text \<open>
  A file holds the JSON document that \<^verbatim>\<open>json.dump\<close> wrote to it (\<^verbatim>\<open>json.load\<close> reads
  the same value back), or it is torn: opened for writing, so truncated, and not written to
  the end.
\<close>

datatype fcontent = Doc json | Torn

datatype level = INFO | WARNING | ERROR

datatype message =
    Fetching_jobs
  | Successfully_fetched nat
  | Failed_to_fetch exn
  | Failed_to_parse exn
  | Response_saved string
  | Failed_to_save_response string exn
  | No_jobs_data
  | Processing_jobs nat
  | Processing_job nat nat json json
  | Added_job int
  | Skipped_job int
  | Invalid_score string
  | Error_processing_job nat exn
  | Found_qualifying nat
  | Good_jobs_saved string
  | Failed_to_save_good_jobs string exn
  | Failed_to_fetch_exiting
  | Completed_successfully
  | Unexpected_error exn
  | Error_scoring_job json json exn

text \<open>
  The state of a run: the files, the log (the records at level \<^verbatim>\<open>INFO\<close> and above, which
  is what the logging configuration keeps), the global \<^verbatim>\<open>_job_scorer\<close> (\<open>None\<close>, or the
  scorer with the key of its client) and the number of language-model calls made.
\<close>

record state =
  files :: "string \<rightharpoonup> fcontent"
  log :: "(level \<times> message) list"
  job_scorer :: "string option"
  calls :: nat

definition logger :: "level \<Rightarrow> message \<Rightarrow> state \<Rightarrow> state" where
  "logger l m s = s\<lparr>log := log s @ [(l, m)]\<rparr>"

text \<open>
  \<^verbatim>\<open>with open(name, "w") as f: json.dump(v, f, ...)\<close>: the exception raised, if any, and
  the files afterwards.
\<close>

definition write_json ::
  "io_outcome \<Rightarrow> string \<Rightarrow> json \<Rightarrow> (string \<rightharpoonup> fcontent) \<Rightarrow> exn option \<times> (string \<rightharpoonup> fcontent)" where
  "write_json out name v fs =
     (case out of
        Written \<Rightarrow> (None, fs(name \<mapsto> Doc v))
      | Open_fails \<Rightarrow> (Some OSError, fs)
      | Write_fails \<Rightarrow> (Some OSError, fs(name \<mapsto> Torn))
      | Dump_raises e \<Rightarrow> (Some e, fs(name \<mapsto> Torn)))"

section \<open>The scorer (fetchOpenAi.py)\<close>

text \<open>
  \<^verbatim>\<open>JobScorer.__init__\<close>: the key of the client, or the exception of \<^verbatim>\<open>load_dotenv\<close>,
  or \<^verbatim>\<open>ValueError\<close> for a key that is missing or empty.
\<close>

definition JobScorer_init :: "world \<Rightarrow> exn + string" where
  "JobScorer_init w =
     (case load_dotenv w of
        Some e \<Rightarrow> Inl e
      | None \<Rightarrow>
          (case environ w ''OPENAI_API_KEY'' of
             None \<Rightarrow> Inl (ValueError ''OPENAI_API_KEY environment variable is required'')
           | Some api_key \<Rightarrow>
               if api_key = []
               then Inl (ValueError ''OPENAI_API_KEY environment variable is required'')
               else Inr api_key))"

definition job_prompt :: "json \<Rightarrow> json \<Rightarrow> json \<Rightarrow> string" where
  "job_prompt company_name job_title job_description =
     ''Company Name: '' @ py_str company_name @ ''.'' @ [CHR 0x0A] @
     ''Job Title: '' @ py_str job_title @ [CHR 0x0A] @
     ''Job Description: '' @ py_str job_description"

text \<open>
  \<^verbatim>\<open>JobScorer.score_job\<close>. Everything raised inside its \<^verbatim>\<open>try\<close> (by the call, by
  \<^verbatim>\<open>choices[0]\<close> on an empty list, by \<^verbatim>\<open>.strip()\<close> on a missing content) ends in the
  handler, which logs and returns \<^verbatim>\<open>"0"\<close>.
\<close>

definition score_job :: "world \<Rightarrow> json \<Rightarrow> json \<Rightarrow> json \<Rightarrow> state \<Rightarrow> string \<times> state" where
  "score_job w company_name job_title job_description s =
     (let s1 = s\<lparr>calls := calls s + 1\<rparr>
      in case chat_completion w (calls s) (job_prompt company_name job_title job_description) of
           Api_raises \<Rightarrow> (''0'', logger ERROR (Error_scoring_job job_title company_name APIError) s1)
         | Api_returns choices \<Rightarrow>
             (case choices of
                [] \<Rightarrow> (''0'', logger ERROR (Error_scoring_job job_title company_name IndexError) s1)
              | content # _ \<Rightarrow>
                  (case content of
                     None \<Rightarrow>
                       (''0'', logger ERROR (Error_scoring_job job_title company_name AttributeError) s1)
                   | Some text \<Rightarrow> (py_strip text, s1))))"

text \<open>\<^verbatim>\<open>getJobScore\<close>: the scorer is built at the first call, and kept once built.\<close>

definition getJobScore :: "world \<Rightarrow> json \<Rightarrow> json \<Rightarrow> json \<Rightarrow> state \<Rightarrow> (exn + string) \<times> state" where
  "getJobScore w companyName jobTitle jobDescription s =
     (case job_scorer s of
        None \<Rightarrow>
          (case JobScorer_init w of
             Inl e \<Rightarrow> (Inl e, s)
           | Inr k \<Rightarrow>
               (let (r, s') = score_job w companyName jobTitle jobDescription (s\<lparr>job_scorer := Some k\<rparr>)
                in (Inr r, s')))
      | Some _ \<Rightarrow>
          (let (r, s') = score_job w companyName jobTitle jobDescription s
           in (Inr r, s')))"

section \<open>The scraper (main.py)\<close>

text \<open>
  \<^verbatim>\<open>JobScraper.__init__\<close>: the cookie, or the exception of \<^verbatim>\<open>load_dotenv\<close>, or
  \<^verbatim>\<open>ValueError\<close> for a cookie that is missing or empty.
\<close>

definition JobScraper_init :: "world \<Rightarrow> exn + string" where
  "JobScraper_init w =
     (case load_dotenv w of
        Some e \<Rightarrow> Inl e
      | None \<Rightarrow>
          (case environ w ''NUWORKS_COOKIE'' of
             None \<Rightarrow> Inl (ValueError ''NUWORKS_COOKIE environment variable is required'')
           | Some cookie \<Rightarrow>
               if cookie = []
               then Inl (ValueError ''NUWORKS_COOKIE environment variable is required'')
               else Inr cookie))"

text \<open>
  \<^verbatim>\<open>fetch_jobs\<close>. \<^verbatim>\<open>raise_for_status\<close> raises for the statuses 400 to 599, and the two
  handlers turn a \<^verbatim>\<open>RequestException\<close> and a \<^verbatim>\<open>JSONDecodeError\<close> into \<^verbatim>\<open>None\<close>
  (which of the two logs a body that does not decode depends on the version of the
  library; the result is \<^verbatim>\<open>None\<close> with both). The
  line that logs the number of jobs calls \<^verbatim>\<open>.get\<close> on the decoded body and \<^verbatim>\<open>len\<close> on
  the result, inside the \<^verbatim>\<open>try\<close>: on a body that is not a dict, or whose \<^verbatim>\<open>models\<close>
  has no length, they raise \<^verbatim>\<open>AttributeError\<close> or \<^verbatim>\<open>TypeError\<close>, which no handler of
  \<^verbatim>\<open>fetch_jobs\<close> catches. So what \<^verbatim>\<open>fetch_jobs\<close> returns is \<^verbatim>\<open>None\<close> or a dict.
  Any other exception that leaves \<^verbatim>\<open>requests.get\<close> or \<^verbatim>\<open>response.json()\<close> meets the
  same two handlers.
\<close>

definition fetch_jobs :: "world \<Rightarrow> state \<Rightarrow> (exn + (string \<times> json) list option) \<times> state" where
  "fetch_jobs w s =
     (let s1 = logger INFO Fetching_jobs s
      in case http_get w of
           Connection_error \<Rightarrow> (Inr None, logger ERROR (Failed_to_fetch RequestException) s1)
         | Response status body \<Rightarrow>
             if 400 \<le> status \<and> status < 600
             then (Inr None, logger ERROR (Failed_to_fetch RequestException) s1)
             else
               (case body of
                  None \<Rightarrow> (Inr None, logger ERROR (Failed_to_parse JSONDecodeError) s1)
                | Some jobs_data \<Rightarrow>
                    (case jobs_data of
                       JObj d \<Rightarrow>
                         (case py_len (dict_get d ''models'' (JArr [])) of
                            Inl e \<Rightarrow> (Inl e, s1)
                          | Inr n \<Rightarrow> (Inr (Some d), logger INFO (Successfully_fetched n) s1))
                     | _ \<Rightarrow> (Inl AttributeError, s1)))
         | Request_raises e \<Rightarrow>
             if e = RequestException
             then (Inr None, logger ERROR (Failed_to_fetch RequestException) s1)
             else if e = JSONDecodeError
             then (Inr None, logger ERROR (Failed_to_parse JSONDecodeError) s1)
             else (Inl e, s1))"

text \<open>
  \<^verbatim>\<open>save_response\<close>: the exception that leaves it, if any, and the state. Its handler is
  for \<^verbatim>\<open>IOError\<close>, which is \<^verbatim>\<open>OSError\<close>: such a failure of the write is logged, not
  raised. An exception of \<^verbatim>\<open>json.dump\<close> of another class leaves the function.
\<close>

definition save_response :: "world \<Rightarrow> json \<Rightarrow> state \<Rightarrow> exn option \<times> state" where
  "save_response w data s =
     (case write_json (disk w Raw_snapshot) ''response.json'' data (files s) of
        (None, fs) \<Rightarrow> (None, logger INFO (Response_saved ''response.json'') (s\<lparr>files := fs\<rparr>))
      | (Some e, fs) \<Rightarrow>
          if e = OSError
          then (None, logger ERROR (Failed_to_save_response ''response.json'' e) (s\<lparr>files := fs\<rparr>))
          else (Some e, s\<lparr>files := fs\<rparr>))"

text \<open>The document of the accepted jobs: \<^verbatim>\<open>{"jobs": good_jobs}\<close>.\<close>

definition jobs_document :: "json list \<Rightarrow> json" where
  "jobs_document good_jobs = JObj [(''jobs'', JArr good_jobs)]"

text \<open>
  The part of the loop body of \<^verbatim>\<open>process_jobs\<close> that follows the scoring: the digit test,
  the threshold, the new entry of \<^verbatim>\<open>good_jobs\<close> and the rewrite of \<^verbatim>\<open>goodJobs.json\<close>.
  The first component of the result is the exception raised, if any: by \<^verbatim>\<open>int\<close>, or by the
  write, which comes after the \<^verbatim>\<open>append\<close>.
\<close>

definition filter_job ::
  "world \<Rightarrow> int \<Rightarrow> nat \<Rightarrow> json \<Rightarrow> json \<Rightarrow> json \<Rightarrow> string \<Rightarrow> json list \<times> state
     \<Rightarrow> exn option \<times> json list \<times> state" where
  "filter_job w min_score i job_title company_name job_id score_str gs =
     (let (good_jobs, s) = gs
      in if py_isdigit score_str then
           (case py_int score_str of
              Inl e \<Rightarrow> (Some e, good_jobs, s)
            | Inr score \<Rightarrow>
                if score \<ge> min_score then
                  (let job_data = JObj [(''jobTitle'', job_title),
                                        (''companyName'', company_name),
                                        (''score'', JStr score_str),
                                        (''url'', JStr (generate_job_url job_id))];
                       good_jobs' = good_jobs @ [job_data]
                   in case write_json (disk w (Incremental i)) ''goodJobs.json''
                             (jobs_document good_jobs') (files s) of
                        (None, fs) \<Rightarrow>
                          (None, good_jobs', logger INFO (Added_job score) (s\<lparr>files := fs\<rparr>))
                      | (Some e, fs) \<Rightarrow> (Some e, good_jobs', s\<lparr>files := fs\<rparr>))
                else (None, good_jobs, logger INFO (Skipped_job score) s))
         else (None, good_jobs, logger WARNING (Invalid_score score_str) s))"

text \<open>
  The fields of a job record that the loop reads, each with the default of its
  \<^verbatim>\<open>job.get\<close>.
\<close>

definition job_title_of :: "(string \<times> json) list \<Rightarrow> json" where
  "job_title_of job = dict_get job ''job_title'' (JStr ''Unknown Title'')"

definition company_name_of :: "(string \<times> json) list \<Rightarrow> json" where
  "company_name_of job = dict_get job ''name'' (JStr ''Unknown Company'')"

definition job_description_of :: "(string \<times> json) list \<Rightarrow> json" where
  "job_description_of job = dict_get job ''job_desc'' (JStr [])"

definition job_id_of :: "(string \<times> json) list \<Rightarrow> json" where
  "job_id_of job = dict_get job ''job_id'' (JStr [])"

text \<open>
  One iteration of the loop of \<^verbatim>\<open>process_jobs\<close>, for the \<open>i\<close>-th of \<open>total_jobs\<close> items:
  its \<^verbatim>\<open>try\<close> body and its handler, which logs whatever was raised and goes on. An item
  that is not a dict has no \<^verbatim>\<open>.get\<close>.
\<close>

definition process_job ::
  "world \<Rightarrow> int \<Rightarrow> nat \<Rightarrow> nat \<Rightarrow> json \<Rightarrow> json list \<times> state \<Rightarrow> json list \<times> state" where
  "process_job w min_score total_jobs i job gs =
     (let (good_jobs, s) = gs
      in case job of
           JObj d \<Rightarrow>
             (let job_title = job_title_of d;
                  company_name = company_name_of d;
                  job_description = job_description_of d;
                  job_id = job_id_of d;
                  s1 = logger INFO (Processing_job i total_jobs job_title company_name) s
              in case getJobScore w company_name job_title job_description s1 of
                   (Inl e, s2) \<Rightarrow> (good_jobs, logger ERROR (Error_processing_job i e) s2)
                 | (Inr reply, s2) \<Rightarrow>
                     (let score_str = (if reply \<noteq> [] then py_strip reply else ''0'')
                      in case filter_job w min_score i job_title company_name job_id score_str
                                (good_jobs, s2) of
                           (None, good_jobs', s3) \<Rightarrow> (good_jobs', s3)
                         | (Some e, good_jobs', s3) \<Rightarrow>
                             (good_jobs', logger ERROR (Error_processing_job i e) s3)))
         | _ \<Rightarrow> (good_jobs, logger ERROR (Error_processing_job i AttributeError) s))"

text \<open>The loop: \<^verbatim>\<open>for i, job in enumerate(jobs_data['models'], 1)\<close>.\<close>

fun process_loop ::
  "world \<Rightarrow> int \<Rightarrow> nat \<Rightarrow> nat \<Rightarrow> json list \<Rightarrow> json list \<times> state \<Rightarrow> json list \<times> state" where
  "process_loop w min_score total_jobs i [] gs = gs"
| "process_loop w min_score total_jobs i (job # jobs) gs =
     process_loop w min_score total_jobs (Suc i) jobs (process_job w min_score total_jobs i job gs)"

text \<open>
  \<^verbatim>\<open>process_jobs\<close>, on a dict as its signature says. \<^verbatim>\<open>len(jobs_data['models'])\<close> stands
  outside the loop's \<^verbatim>\<open>try\<close>, so a \<^verbatim>\<open>models\<close> without a length raises out of the
  function.
\<close>

definition process_jobs ::
  "world \<Rightarrow> (string \<times> json) list \<Rightarrow> int \<Rightarrow> state \<Rightarrow> (exn + json list) \<times> state" where
  "process_jobs w jobs_data min_score s =
     (if jobs_data = [] \<or> map_of jobs_data ''models'' = None
      then (Inr [], logger WARNING No_jobs_data s)
      else
        (let models = dict_get jobs_data ''models'' JNull
         in case py_len models of
              Inl e \<Rightarrow> (Inl e, s)
            | Inr total_jobs \<Rightarrow>
                (let s1 = logger INFO (Processing_jobs total_jobs) s;
                     (good_jobs, s2) = process_loop w min_score total_jobs 1 (py_iter models) ([], s1)
                 in (Inr good_jobs, logger INFO (Found_qualifying (length good_jobs)) s2))))"

text \<open>
  \<^verbatim>\<open>save_good_jobs\<close>: as \<^verbatim>\<open>save_response\<close>, the handler is for \<^verbatim>\<open>IOError\<close> only.
\<close>

definition save_good_jobs :: "world \<Rightarrow> json list \<Rightarrow> state \<Rightarrow> exn option \<times> state" where
  "save_good_jobs w good_jobs s =
     (case write_json (disk w Final_list) ''goodJobs.json'' (jobs_document good_jobs) (files s) of
        (None, fs) \<Rightarrow> (None, logger INFO (Good_jobs_saved ''goodJobs.json'') (s\<lparr>files := fs\<rparr>))
      | (Some e, fs) \<Rightarrow>
          if e = OSError
          then (None, logger ERROR (Failed_to_save_good_jobs ''goodJobs.json'' e) (s\<lparr>files := fs\<rparr>))
          else (Some e, s\<lparr>files := fs\<rparr>))"

text \<open>
  How the \<^verbatim>\<open>try\<close> body of \<^verbatim>\<open>main\<close> ends: it returns, or \<^verbatim>\<open>sys.exit\<close> is called, or
  an exception is raised.
\<close>

datatype ending = Returns | Exits nat | Raises exn

text \<open>
  The \<^verbatim>\<open>try\<close> body of \<^verbatim>\<open>main\<close>. Whatever leaves the constructor of the scraper,
  \<^verbatim>\<open>fetch_jobs\<close>, \<^verbatim>\<open>save_response\<close>, \<^verbatim>\<open>process_jobs\<close> or \<^verbatim>\<open>save_good_jobs\<close> ends it.
\<close>

definition main_body :: "world \<Rightarrow> state \<Rightarrow> ending \<times> state" where
  "main_body w s =
     (case JobScraper_init w of
        Inl e \<Rightarrow> (Raises e, s)
      | Inr cookie \<Rightarrow>
          (case fetch_jobs w s of
             (Inl e, s1) \<Rightarrow> (Raises e, s1)
           | (Inr None, s1) \<Rightarrow> (Exits 1, logger ERROR Failed_to_fetch_exiting s1)
           | (Inr (Some jobs_data), s1) \<Rightarrow>
               if jobs_data = [] then (Exits 1, logger ERROR Failed_to_fetch_exiting s1)
               else
                 (case save_response w (JObj jobs_data) s1 of
                    (Some e, s2) \<Rightarrow> (Raises e, s2)
                  | (None, s2) \<Rightarrow>
                      (case process_jobs w jobs_data 50 s2 of
                         (Inl e, s3) \<Rightarrow> (Raises e, s3)
                       | (Inr good_jobs, s3) \<Rightarrow>
                           (case save_good_jobs w good_jobs s3 of
                              (Some e, s4) \<Rightarrow> (Raises e, s4)
                            | (None, s4) \<Rightarrow>
                                (Returns, logger INFO Completed_successfully s4))))))"

text \<open>
  \<^verbatim>\<open>main\<close>: the exit status of the process and the state it leaves. \<^verbatim>\<open>sys.exit(1)\<close>
  raises \<^verbatim>\<open>SystemExit\<close>, which the handler for \<^verbatim>\<open>Exception\<close> does not catch; any other
  exception is logged by that handler, which exits with status 1 too. A \<^verbatim>\<open>main\<close> that
  returns ends the process with status 0.
\<close>

definition main :: "world \<Rightarrow> state \<Rightarrow> nat \<times> state" where
  "main w s =
     (case main_body w s of
        (Returns, s') \<Rightarrow> (0, s')
      | (Exits status, s') \<Rightarrow> (status, s')
      | (Raises e, s') \<Rightarrow> (1, logger ERROR (Unexpected_error e) s'))"

text \<open>The state in which the process starts: no scorer yet, no call made, an empty log.\<close>

definition initial :: "(string \<rightharpoonup> fcontent) \<Rightarrow> state" where
  "initial fs = \<lparr>files = fs, log = [], job_scorer = None, calls = 0\<rparr>"

section \<open>Notions of the statements\<close>

text \<open>
  The scorer that \<^verbatim>\<open>getJobScore\<close> works with in a state: the one already built, or the
  one it builds now, or the exception of the construction.
\<close>

definition the_scorer :: "world \<Rightarrow> state \<Rightarrow> exn + string" where
  "the_scorer w s = (case job_scorer s of None \<Rightarrow> JobScorer_init w | Some k \<Rightarrow> Inr k)"

text \<open>What the language model yields for a job record, when it is called in a state.\<close>

definition scorer_reply :: "world \<Rightarrow> state \<Rightarrow> (string \<times> json) list \<Rightarrow> api_outcome" where
  "scorer_reply w s job =
     chat_completion w (calls s)
       (job_prompt (company_name_of job) (job_title_of job) (job_description_of job))"

text \<open>
  The exception that ends the \<^verbatim>\<open>try\<close> of \<^verbatim>\<open>score_job\<close> for an outcome of the call: the
  call's own, or the one of reading a reply with no choice or with no content.
\<close>

definition scoring_failure :: "api_outcome \<Rightarrow> exn option" where
  "scoring_failure out =
     (case out of
        Api_raises \<Rightarrow> Some APIError
      | Api_returns [] \<Rightarrow> Some IndexError
      | Api_returns (None # _) \<Rightarrow> Some AttributeError
      | Api_returns (Some _ # _) \<Rightarrow> None)"

text \<open>The entry of the accepted list for a job record and a score string.\<close>

definition ScoredJob :: "(string \<times> json) list \<Rightarrow> string \<Rightarrow> json" where
  "ScoredJob job score_str =
     JObj [(''jobTitle'', job_title_of job),
           (''companyName'', company_name_of job),
           (''score'', JStr score_str),
           (''url'', JStr (generate_job_url (job_id_of job)))]"

text \<open>
  The state in which the filter runs for the \<open>i\<close>-th record, once its scoring call has
  returned: the record is announced in the log, the scorer is built, one more call is made.
\<close>

definition scored_state ::
  "nat \<Rightarrow> nat \<Rightarrow> (string \<times> json) list \<Rightarrow> string \<Rightarrow> state \<Rightarrow> state" where
  "scored_state i total_jobs job k s =
     s\<lparr>log := log s @ [(INFO, Processing_job i total_jobs (job_title_of job) (company_name_of job))],
       job_scorer := Some k,
       calls := calls s + 1\<rparr>"

text \<open>The placeholders of the three fields that a record may lack.\<close>

definition placeholders :: "(string \<times> json) list" where
  "placeholders =
     [(''job_title'', JStr ''Unknown Title''),
      (''name'', JStr ''Unknown Company''),
      (''job_desc'', JStr [])]"

text \<open>A job record with the placeholders added for the keys it lacks.\<close>

definition with_placeholders :: "(string \<times> json) list \<Rightarrow> (string \<times> json) list" where
  "with_placeholders job = job @ filter (\<lambda>kv. map_of job (fst kv) = None) placeholders"

text \<open>
  The accepted list and the state of \<^verbatim>\<open>process_jobs\<close> after the first \<open>n\<close> iterations of
  its loop over \<open>jobs\<close>, started in state \<open>s\<close>.
\<close>

definition loop_state ::
  "world \<Rightarrow> int \<Rightarrow> json list \<Rightarrow> state \<Rightarrow> nat \<Rightarrow> json list \<times> state" where
  "loop_state w min_score jobs s n =
     process_loop w min_score (length jobs) 1 (take n jobs) ([], s)"


text \<open>The handler of the loop, applied to what the filter returns for the \<open>i\<close>-th item.\<close>

definition after_filter :: "nat \<Rightarrow> exn option \<times> json list \<times> state \<Rightarrow> json list \<times> state" where
  "after_filter i r =
     (case r of
        (None, good_jobs', s3) \<Rightarrow> (good_jobs', s3)
      | (Some e, good_jobs', s3) \<Rightarrow> (good_jobs', logger ERROR (Error_processing_job i e) s3))"

subsection \<open>Concrete runs\<close>

text \<open>
  A world for concrete runs: \<^verbatim>\<open>load_dotenv\<close> raises nothing, the request is answered
  with status 200 and the given body,
  the language model gives the scripted outcomes one after the other and raises once they
  are used up, and every write succeeds. \<open>says text\<close> is a reply with one choice.
\<close>

definition says :: "string \<Rightarrow> api_outcome" where
  "says text = Api_returns [Some text]"

definition scripted_world ::
  "(string \<rightharpoonup> string) \<Rightarrow> json \<Rightarrow> api_outcome list \<Rightarrow> world" where
  "scripted_world env body replies =
     \<lparr>load_dotenv = None,
      environ = env,
      http_get = Response 200 (Some body),
      chat_completion = (\<lambda>n prompt. if n < length replies then replies ! n else Api_raises),
      disk = (\<lambda>site. Written)\<rparr>"

text \<open>A world with another outcome for the write at one place.\<close>

definition with_disk :: "world \<Rightarrow> write_site \<Rightarrow> io_outcome \<Rightarrow> world" where
  "with_disk w site out = w\<lparr>disk := (disk w)(site := out)\<rparr>"

definition full_environ :: "string \<rightharpoonup> string" where
  "full_environ = [''NUWORKS_COOKIE'' \<mapsto> ''cookie'', ''OPENAI_API_KEY'' \<mapsto> ''key'']"

definition environ_without_key :: "string \<rightharpoonup> string" where
  "environ_without_key = [''NUWORKS_COOKIE'' \<mapsto> ''cookie'']"

definition example_job :: "(string \<times> json) list" where
  "example_job =
     [(''job_title'', JStr ''Analyst''),
      (''name'', JStr ''Acme''),
      (''job_desc'', JStr ''Co-op''),
      (''job_id'', JStr ''12345'')]"

definition example_body :: json where
  "example_body = JObj [(''models'', JArr [JObj example_job])]"





section \<open>Auxiliary facts\<close>

subsection \<open>Stripping\<close>

lemma dropWhile_isspace_id: "s = [] \<or> \<not> isspace (hd s) \<Longrightarrow> dropWhile isspace s = s"
  by (cases s) auto

lemma py_strip_id:
  assumes "s = [] \<or> (\<not> isspace (hd s) \<and> \<not> isspace (last s))"
  shows "py_strip s = s"
proof (cases "s = []")
  case True
  then show ?thesis by (simp add: py_strip_def)
next
  case False
  with assms have h: "\<not> isspace (hd s)" and l: "\<not> isspace (last s)" by auto
  from False h have "dropWhile isspace s = s" by (simp add: dropWhile_isspace_id)
  moreover from False l have "dropWhile isspace (rev s) = rev s"
    by (intro dropWhile_isspace_id) (simp add: hd_rev)
  ultimately show ?thesis by (simp add: py_strip_def)
qed

lemma py_strip_ends:
  "py_strip s = [] \<or> (\<not> isspace (hd (py_strip s)) \<and> \<not> isspace (last (py_strip s)))"
proof (cases "py_strip s = []")
  case True
  then show ?thesis by simp
next
  case False
  let ?a = "dropWhile isspace s"
  let ?b = "dropWhile isspace (rev ?a)"
  from False have b: "?b \<noteq> []" by (simp add: py_strip_def)
  then have hb: "\<not> isspace (hd ?b)" by (rule hd_dropWhile)
  from b have a: "?a \<noteq> []" by (cases "?a = []") simp_all
  then have ha: "\<not> isspace (hd ?a)" by (rule hd_dropWhile)
  have "last ?b = last (rev ?a)"
    using b by (metis append_is_Nil_conv last_appendR takeWhile_dropWhile_id)
  then have "last ?b = hd ?a" using a by (simp add: last_rev)
  with ha hb b show ?thesis by (simp add: py_strip_def hd_rev last_rev)
qed

lemma py_strip_idem: "py_strip (py_strip s) = py_strip s"
  by (rule py_strip_id) (rule py_strip_ends)

lemma is_decimal_not_space: "is_decimal c \<Longrightarrow> \<not> isspace c"
  by (auto simp: is_decimal_def isspace_def Let_def)

lemma py_strip_decimal:
  assumes "list_all is_decimal r"
  shows "py_strip r = r"
proof (rule py_strip_id, cases "r = []")
  case True
  then show "r = [] \<or> (\<not> isspace (hd r) \<and> \<not> isspace (last r))" by simp
next
  case False
  then have "hd r \<in> set r" "last r \<in> set r" by simp_all
  with assms have "is_decimal (hd r)" "is_decimal (last r)" by (auto simp: list_all_iff)
  then show "r = [] \<or> (\<not> isspace (hd r) \<and> \<not> isspace (last r))"
    by (simp add: is_decimal_not_space)
qed

lemma decimal_isdigit: "r \<noteq> [] \<Longrightarrow> list_all is_decimal r \<Longrightarrow> py_isdigit r"
  by (auto simp: py_isdigit_def isdigit_char_def list_all_iff)

lemma decimal_int: "r \<noteq> [] \<Longrightarrow> list_all is_decimal r \<Longrightarrow> py_int r = Inr (decimal_value r)"
  by (simp add: py_int_def)

subsection \<open>The log and the scorer\<close>

lemma logger_simps [simp]:
  "files (logger l m s) = files s"
  "log (logger l m s) = log s @ [(l, m)]"
  "job_scorer (logger l m s) = job_scorer s"
  "calls (logger l m s) = calls s"
  by (simp_all add: logger_def)

lemma scored_state_simps [simp]:
  "files (scored_state i t job k s) = files s"
  "log (scored_state i t job k s) =
     log s @ [(INFO, Processing_job i t (job_title_of job) (company_name_of job))]"
  "job_scorer (scored_state i t job k s) = Some k"
  "calls (scored_state i t job k s) = calls s + 1"
  by (simp_all add: scored_state_def)

lemma getJobScore_the_scorer:
  "getJobScore w c t d s =
     (case the_scorer w s of
        Inl e \<Rightarrow> (Inl e, s)
      | Inr k \<Rightarrow> (Inr (fst (score_job w c t d (s\<lparr>job_scorer := Some k\<rparr>))),
                  snd (score_job w c t d (s\<lparr>job_scorer := Some k\<rparr>))))"
proof (cases "job_scorer s")
  case None
  then show ?thesis
    by (simp add: getJobScore_def the_scorer_def split: sum.splits prod.splits)
next
  case (Some k)
  then have same: "s\<lparr>job_scorer := Some k\<rparr> = s" by simp
  show ?thesis
    by (simp add: getJobScore_def the_scorer_def Some same split: prod.splits)
qed

lemma score_job_reply:
  assumes "chat_completion w (calls s) (job_prompt c t d) = Api_returns (Some text # others)"
  shows "score_job w c t d s = (py_strip text, s\<lparr>calls := calls s + 1\<rparr>)"
  using assms by (simp add: score_job_def)

lemma score_job_failure:
  assumes "scoring_failure (chat_completion w (calls s) (job_prompt c t d)) = Some e"
  shows "score_job w c t d s =
           (''0'', logger ERROR (Error_scoring_job t c e) (s\<lparr>calls := calls s + 1\<rparr>))"
  using assms
  by (auto simp: score_job_def scoring_failure_def
           split: api_outcome.splits list.splits option.splits)

lemma process_job_scored:
  assumes "the_scorer w s = Inr k"
    and "scorer_reply w s job = Api_returns (Some text # others)"
  shows "process_job w min_score total_jobs i (JObj job) (good_jobs, s) =
     after_filter i
       (filter_job w min_score i (job_title_of job) (company_name_of job) (job_id_of job)
          (if py_strip text \<noteq> [] then py_strip text else ''0'')
          (good_jobs, scored_state i total_jobs job k s))"
proof -
  let ?s1 = "logger INFO (Processing_job i total_jobs (job_title_of job) (company_name_of job)) s"
  have sc: "the_scorer w ?s1 = Inr k"
    using assms(1) by (simp add: the_scorer_def)
  have "chat_completion w (calls (?s1\<lparr>job_scorer := Some k\<rparr>))
          (job_prompt (company_name_of job) (job_title_of job) (job_description_of job))
        = Api_returns (Some text # others)"
    using assms(2) by (simp add: scorer_reply_def)
  then have "score_job w (company_name_of job) (job_title_of job) (job_description_of job)
               (?s1\<lparr>job_scorer := Some k\<rparr>)
             = (py_strip text, scored_state i total_jobs job k s)"
    by (simp add: score_job_reply scored_state_def logger_def)
  then have "getJobScore w (company_name_of job) (job_title_of job) (job_description_of job) ?s1
             = (Inr (py_strip text), scored_state i total_jobs job k s)"
    by (simp add: getJobScore_the_scorer sc)
  then show ?thesis
    by (simp add: process_job_def py_strip_idem after_filter_def Let_def)
qed

lemma process_job_failed:
  assumes "the_scorer w s = Inr k"
    and "scoring_failure (scorer_reply w s job) = Some e"
  shows "process_job w min_score total_jobs i (JObj job) (good_jobs, s) =
     after_filter i
       (filter_job w min_score i (job_title_of job) (company_name_of job) (job_id_of job) ''0''
          (good_jobs,
           logger ERROR (Error_scoring_job (job_title_of job) (company_name_of job) e)
             (scored_state i total_jobs job k s)))"
proof -
  let ?s1 = "logger INFO (Processing_job i total_jobs (job_title_of job) (company_name_of job)) s"
  have sc: "the_scorer w ?s1 = Inr k"
    using assms(1) by (simp add: the_scorer_def)
  have "scoring_failure (chat_completion w (calls (?s1\<lparr>job_scorer := Some k\<rparr>))
          (job_prompt (company_name_of job) (job_title_of job) (job_description_of job)))
        = Some e"
    using assms(2) by (simp add: scorer_reply_def)
  then have "score_job w (company_name_of job) (job_title_of job) (job_description_of job)
               (?s1\<lparr>job_scorer := Some k\<rparr>)
             = (''0'', logger ERROR (Error_scoring_job (job_title_of job) (company_name_of job) e)
                        (scored_state i total_jobs job k s))"
    by (simp add: score_job_failure scored_state_def logger_def)
  then have "getJobScore w (company_name_of job) (job_title_of job) (job_description_of job) ?s1
             = (Inr ''0'', logger ERROR (Error_scoring_job (job_title_of job) (company_name_of job) e)
                        (scored_state i total_jobs job k s))"
    by (simp add: getJobScore_the_scorer sc)
  moreover have "py_strip ''0'' = ''0''"
    by (simp add: py_strip_def isspace_def)
  ultimately show ?thesis
    by (simp add: process_job_def after_filter_def Let_def)
qed

lemma process_job_no_scorer:
  assumes "the_scorer w s = Inl e"
  shows "process_job w min_score total_jobs i (JObj job) (good_jobs, s) =
     (good_jobs,
      logger ERROR (Error_processing_job i e)
        (logger INFO (Processing_job i total_jobs (job_title_of job) (company_name_of job)) s))"
proof -
  let ?s1 = "logger INFO (Processing_job i total_jobs (job_title_of job) (company_name_of job)) s"
  have "the_scorer w ?s1 = Inl e"
    using assms by (simp add: the_scorer_def)
  then have "getJobScore w (company_name_of job) (job_title_of job) (job_description_of job) ?s1
             = (Inl e, ?s1)"
    by (simp add: getJobScore_the_scorer)
  then show ?thesis
    by (simp add: process_job_def)
qed

text \<open>The filter, case by case.\<close>

lemma filter_job_decimal:
  assumes "r \<noteq> []" and "list_all is_decimal r"
  shows "filter_job w min_score i (job_title_of job) (company_name_of job) (job_id_of job) r
           (good_jobs, s) =
     (if min_score \<le> decimal_value r then
        (case disk w (Incremental i) of
           Written \<Rightarrow>
             (None, good_jobs @ [ScoredJob job r],
              logger INFO (Added_job (decimal_value r))
                (s\<lparr>files := (files s)(''goodJobs.json'' \<mapsto>
                      Doc (jobs_document (good_jobs @ [ScoredJob job r])))\<rparr>))
         | Open_fails \<Rightarrow> (Some OSError, good_jobs @ [ScoredJob job r], s\<lparr>files := files s\<rparr>)
         | Write_fails \<Rightarrow>
             (Some OSError, good_jobs @ [ScoredJob job r],
              s\<lparr>files := (files s)(''goodJobs.json'' \<mapsto> Torn)\<rparr>)
         | Dump_raises e \<Rightarrow>
             (Some e, good_jobs @ [ScoredJob job r],
              s\<lparr>files := (files s)(''goodJobs.json'' \<mapsto> Torn)\<rparr>))
      else (None, good_jobs, logger INFO (Skipped_job (decimal_value r)) s))"
  using assms
  by (simp add: filter_job_def decimal_isdigit decimal_int ScoredJob_def write_json_def Let_def
           split: io_outcome.splits)

lemma filter_job_invalid:
  assumes "\<not> py_isdigit r"
  shows "filter_job w min_score i t c j r (good_jobs, s) =
           (None, good_jobs, logger WARNING (Invalid_score r) s)"
  using assms by (simp add: filter_job_def)

subsection \<open>Fetching and the exit status\<close>

lemma scripted_world_simps [simp]:
  "load_dotenv (scripted_world env body replies) = None"
  "environ (scripted_world env body replies) = env"
  "http_get (scripted_world env body replies) = Response 200 (Some body)"
  "chat_completion (scripted_world env body replies) n prompt =
     (if n < length replies then replies ! n else Api_raises)"
  "disk (scripted_world env body replies) site = Written"
  by (simp_all add: scripted_world_def)

lemma with_disk_simps [simp]:
  "load_dotenv (with_disk w site out) = load_dotenv w"
  "environ (with_disk w site out) = environ w"
  "http_get (with_disk w site out) = http_get w"
  "chat_completion (with_disk w site out) = chat_completion w"
  "disk (with_disk w site out) site' = (if site' = site then out else disk w site')"
  by (simp_all add: with_disk_def)

lemmas run_defs =
  main_def main_body_def JobScraper_init_def JobScorer_init_def fetch_jobs_def save_response_def
  process_jobs_def process_job_def getJobScore_def score_job_def filter_job_def
  save_good_jobs_def write_json_def dict_get_def py_len_def py_iter_def
  job_title_of_def company_name_of_def job_description_of_def job_id_of_def
  full_environ_def environ_without_key_def example_body_def example_job_def initial_def
  jobs_document_def says_def Let_def


text \<open>
  The transport failures end in \<^verbatim>\<open>None\<close>: no connection, a status from 400 to 599, a
  body that is not JSON.
\<close>

lemma fetch_jobs_transport_failure:
  assumes "http_get w = Connection_error
           \<or> (\<exists>status body. http_get w = Response status body \<and> 400 \<le> status \<and> status < 600)
           \<or> (\<exists>status. http_get w = Response status None)"
  shows "fst (fetch_jobs w s) = Inr None"
  using assms by (auto simp: fetch_jobs_def Let_def)







subsection \<open>Deep links\<close>

lemma join_simps: "join sep [] = []" "join sep (x # xs) = x @ concat (map (\<lambda>z. sep @ z) xs)"
  by (simp_all add: join_def)

lemma show_int_small:
  "show_int 100 = ''100''" "show_int 1 = ''1''" "show_int 5 = ''5''" "show_int 7 = ''7''"
  by (simp_all add: show_int_def show_nat.simps)

subsection \<open>The loop\<close>









lemma py_len_iter: "py_len v = Inr n \<Longrightarrow> length (py_iter v) = n"
  by (auto simp: py_len_def py_iter_def split: json.splits)

lemma process_jobs_loop_state:
  assumes "map_of jobs_data ''models'' = Some models" and "py_len models = Inr total_jobs"
  shows "fst (process_jobs w jobs_data min_score s) =
           Inr (fst (loop_state w min_score (py_iter models)
                       (logger INFO (Processing_jobs total_jobs) s) total_jobs))"
proof -
  from assms(1) have "jobs_data \<noteq> []" by auto
  moreover from assms(2) have "length (py_iter models) = total_jobs" by (rule py_len_iter)
  ultimately show ?thesis
    using assms
    by (simp add: process_jobs_def dict_get_def loop_state_def Let_def split: prod.splits)
qed

lemma process_job_no_scorer_any:
  assumes "the_scorer w s = Inl e"
    and "process_job w min_score total_jobs i job (good_jobs, s) = (good_jobs', s')"
  shows "good_jobs' = good_jobs \<and> files s' = files s \<and> calls s' = calls s
         \<and> the_scorer w s' = Inl e"
proof (cases job)
  case (JObj d)
  with assms show ?thesis
    by (auto simp: process_job_no_scorer the_scorer_def)
qed (use assms in \<open>auto simp: process_job_def the_scorer_def\<close>)

lemma process_loop_no_scorer:
  assumes "the_scorer w s = Inl e"
  shows "fst (process_loop w min_score total_jobs i jobs (good_jobs, s)) = good_jobs
         \<and> files (snd (process_loop w min_score total_jobs i jobs (good_jobs, s))) = files s
         \<and> calls (snd (process_loop w min_score total_jobs i jobs (good_jobs, s))) = calls s"
  using assms
proof (induction jobs arbitrary: i s)
  case Nil
  show ?case by simp
next
  case (Cons job jobs)
  obtain g' s' where st: "process_job w min_score total_jobs i job (good_jobs, s) = (g', s')"
    by (cases "process_job w min_score total_jobs i job (good_jobs, s)")
  from process_job_no_scorer_any [OF Cons.prems st]
  have "g' = good_jobs" "files s' = files s" "calls s' = calls s" "the_scorer w s' = Inl e"
    by simp_all
  with Cons.IH [of s' "Suc i"] st show ?case by simp
qed

subsection \<open>Replies of decimal digits\<close>

lemma process_job_decimal:
  assumes "the_scorer w s = Inr k"
    and "scorer_reply w s job = Api_returns (Some text # others)"
    and "py_strip text = r" and "r \<noteq> []" and "list_all is_decimal r"
  shows "process_job w min_score total_jobs i (JObj job) (good_jobs, s) =
     after_filter i
       (if min_score \<le> decimal_value r then
          (case disk w (Incremental i) of
             Written \<Rightarrow>
               (None, good_jobs @ [ScoredJob job r],
                logger INFO (Added_job (decimal_value r))
                  ((scored_state i total_jobs job k s)\<lparr>files := (files s)(''goodJobs.json'' \<mapsto>
                        Doc (jobs_document (good_jobs @ [ScoredJob job r])))\<rparr>))
           | Open_fails \<Rightarrow>
               (Some OSError, good_jobs @ [ScoredJob job r],
                (scored_state i total_jobs job k s)\<lparr>files := files s\<rparr>)
           | Write_fails \<Rightarrow>
               (Some OSError, good_jobs @ [ScoredJob job r],
                (scored_state i total_jobs job k s)\<lparr>files := (files s)(''goodJobs.json'' \<mapsto> Torn)\<rparr>)
           | Dump_raises e \<Rightarrow>
               (Some e, good_jobs @ [ScoredJob job r],
                (scored_state i total_jobs job k s)\<lparr>files := (files s)(''goodJobs.json'' \<mapsto> Torn)\<rparr>))
        else (None, good_jobs,
              logger INFO (Skipped_job (decimal_value r)) (scored_state i total_jobs job k s)))"
  using assms
  by (simp add: process_job_scored filter_job_decimal split: io_outcome.splits)

lemma process_job_decimal_result:
  assumes "the_scorer w s = Inr k"
    and "scorer_reply w s job = Api_returns (Some text # others)"
    and "py_strip text = r" and "r \<noteq> []" and "list_all is_decimal r"
  shows "fst (process_job w min_score total_jobs i (JObj job) (good_jobs, s)) =
           (if min_score \<le> decimal_value r then good_jobs @ [ScoredJob job r] else good_jobs)"
    and "files (snd (process_job w min_score total_jobs i (JObj job) (good_jobs, s))) =
           (if min_score \<le> decimal_value r
            then snd (write_json (disk w (Incremental i)) ''goodJobs.json''
                        (jobs_document (good_jobs @ [ScoredJob job r])) (files s))
            else files s)"
  using assms
  by (simp_all add: process_job_decimal after_filter_def write_json_def split: io_outcome.splits)

lemma dict_get_with_placeholders:
  "dict_get (with_placeholders job) ''job_title'' (JStr ''Unknown Title'') =
     dict_get job ''job_title'' (JStr ''Unknown Title'')"
  "dict_get (with_placeholders job) ''name'' (JStr ''Unknown Company'') =
     dict_get job ''name'' (JStr ''Unknown Company'')"
  "dict_get (with_placeholders job) ''job_desc'' (JStr []) = dict_get job ''job_desc'' (JStr [])"
  "dict_get (with_placeholders job) ''job_id'' (JStr []) = dict_get job ''job_id'' (JStr [])"
  by (simp_all add: dict_get_def with_placeholders_def placeholders_def map_add_def
        split: option.splits)

lemma with_placeholders_keys:
  "map_of (with_placeholders job) ''job_title'' \<noteq> None"
  "map_of (with_placeholders job) ''name'' \<noteq> None"
  "map_of (with_placeholders job) ''job_desc'' \<noteq> None"
  by (simp_all add: with_placeholders_def placeholders_def map_add_def split: option.splits)

lemma with_placeholders_distinct:
  "distinct (map fst job) \<Longrightarrow> distinct (map fst (with_placeholders job))"
  by (auto simp: with_placeholders_def placeholders_def map_of_eq_None_iff)

subsection \<open>Evaluating concrete runs\<close>

lemmas string_defs =
  py_strip_def isspace_def py_isdigit_def isdigit_char_def is_decimal_def py_int_def
  decimal_value_def digit_value_def

lemma example_scorer:
  "the_scorer (scripted_world full_environ body replies) (initial fs) = Inr ''key''"
  by (simp add: the_scorer_def initial_def JobScorer_init_def full_environ_def)

lemma example_reply:
  "scorer_reply (scripted_world env body (says text # replies)) (initial fs) job
     = Api_returns (Some text # [])"
  by (simp add: scorer_reply_def initial_def says_def)

lemma example_strings:
  "py_strip ''100'' = ''100''" "py_strip ''49'' = ''49''" "py_strip ''0'' = ''0''"
  "py_strip ''150'' = ''150''" "py_strip ''N/A'' = ''N/A''" "py_strip ''  '' = []"
  "list_all is_decimal ''100''" "list_all is_decimal ''49''" "list_all is_decimal ''0''"
  "list_all is_decimal ''150''"
  "decimal_value ''100'' = 100" "decimal_value ''49'' = 49" "decimal_value ''0'' = 0"
  "decimal_value ''150'' = 150"
  "\<not> py_isdigit ''N/A''" "\<not> py_isdigit []"
  by (simp_all add: py_strip_def isspace_def is_decimal_def decimal_value_def digit_value_def
        py_isdigit_def isdigit_char_def)

section \<open>The claims\<close>

subsection \<open>C1: a missing language-model credential\<close>

text \<open>
  C1 says that a run without \<^verbatim>\<open>OPENAI_API_KEY\<close> fails fast and does not complete as
  successful. The scorer is built at the first scoring call, inside the \<^verbatim>\<open>try\<close> of the
  loop, so the \<^verbatim>\<open>ValueError\<close> of its construction is logged once per job and the run
  goes on: no call is made and no job is accepted (\<open>process_loop_no_scorer\<close>), as C1
  says, but the run is not stopped. The run below has the cookie and no key, and fetches one
  job: it writes an empty list of accepted jobs, logs that it completed successfully and
  exits with status 0.
\<close>

theorem missing_key_run_completes:
  "fst (main (scripted_world environ_without_key example_body [says ''100'']) (initial Map.empty))
     = 0
   \<and> log (snd (main (scripted_world environ_without_key example_body [says ''100''])
                 (initial Map.empty)))
       = [(INFO, Fetching_jobs),
          (INFO, Successfully_fetched 1),
          (INFO, Response_saved ''response.json''),
          (INFO, Processing_jobs 1),
          (INFO, Processing_job 1 1 (JStr ''Analyst'') (JStr ''Acme'')),
          (ERROR, Error_processing_job 1
                    (ValueError ''OPENAI_API_KEY environment variable is required'')),
          (INFO, Found_qualifying 0),
          (INFO, Good_jobs_saved ''goodJobs.json''),
          (INFO, Completed_successfully)]
   \<and> files (snd (main (scripted_world environ_without_key example_body [says ''100''])
                  (initial Map.empty))) ''goodJobs.json''
       = Some (Doc (JObj [(''jobs'', JArr [])]))
   \<and> calls (snd (main (scripted_world environ_without_key example_body [says ''100''])
                  (initial Map.empty))) = 0"
  by (simp add: run_defs)

subsection \<open>C2: the deep link of a job\<close>

text \<open>
  C2 says that \<^verbatim>\<open>generate_job_url\<close> emits the parameters of the fetch, \<^verbatim>\<open>json_mode\<close>
  and \<^verbatim>\<open>enable_translation\<close> among them. It does not: for the identifier 12345 neither
  name occurs in the link, and the keys of the link are not those of the fetch followed by
  \<^verbatim>\<open>currentJobId\<close>.
\<close>

theorem generate_job_url_omits_fetch_parameters:
  "\<not> sublist ''json_mode'' (generate_job_url (JStr ''12345''))
   \<and> \<not> sublist ''enable_translation'' (generate_job_url (JStr ''12345''))
   \<and> map fst (url_params (JStr ''12345'')) \<noteq> map fst params @ [''currentJobId'']"
  by code_simp

text \<open>
  C2, amended: for every job identifier, the parameters of the link are the first seven
  parameters of the fetch (\<^verbatim>\<open>perPage\<close>, \<^verbatim>\<open>page\<close>, \<^verbatim>\<open>sort\<close>, \<^verbatim>\<open>ocr\<close>,
  \<^verbatim>\<open>job_type\<close>, \<^verbatim>\<open>industry\<close>, \<^verbatim>\<open>postdate\<close>) in the order and with the values of the
  fetch, except that \<^verbatim>\<open>page\<close> is 1, followed by \<^verbatim>\<open>currentJobId\<close> with the identifier;
  \<^verbatim>\<open>json_mode\<close> and \<^verbatim>\<open>enable_translation\<close> are not emitted. The link is the search page
  with these parameters, joined by \<^verbatim>\<open>&\<close> and not escaped.
\<close>

theorem generate_job_url_parameters:
  "url_params job_id = (take 7 params)[1 := (''page'', JInt 1)] @ [(''currentJobId'', job_id)]
   \<and> generate_job_url job_id =
       ''https://northeastern-csm.symplicity.com/students/app/jobs/search?perPage=100&page=1&sort=!postdate&ocr=f&job_type=5&industry=112,147,24,109,83,116,141,142,143,89,105,104,97&postdate=7&currentJobId=''
       @ py_str job_id"
  by (simp add: url_params_def params_def generate_job_url_def job_url_template_def base_url_def
        join_simps py_str_def show_int_small)

text \<open>The link for the identifier 12345.\<close>

theorem generate_job_url_parameters_witness:
  "generate_job_url (JStr ''12345'') =
     ''https://northeastern-csm.symplicity.com/students/app/jobs/search?perPage=100&page=1&sort=!postdate&ocr=f&job_type=5&industry=112,147,24,109,83,116,141,142,143,89,105,104,97&postdate=7&currentJobId=12345''"
  using generate_job_url_parameters [of "JStr ''12345''"] by (simp add: py_str_def)

subsection \<open>C3: the exit status\<close>




subsection \<open>C4: the boundary of the fetch\<close>

text \<open>
  C4 says that \<^verbatim>\<open>fetch_jobs\<close> never lets an exception pass and returns the parsed body
  on success. The two handlers do turn the transport failures into \<^verbatim>\<open>None\<close>
  (\<open>fetch_jobs_transport_failure\<close>), but the line that logs the number of jobs calls
  \<^verbatim>\<open>.get\<close> on the parsed body: when the request is answered with status 200 and the body
  \<^verbatim>\<open>[]\<close>, which is JSON and not a dict, \<^verbatim>\<open>AttributeError\<close> leaves \<^verbatim>\<open>fetch_jobs\<close>, and
  \<^verbatim>\<open>main\<close> exits with status 1 through its handler.
\<close>

theorem fetch_jobs_raises_on_array_body:
  "fst (fetch_jobs (scripted_world full_environ (JArr []) []) (initial Map.empty))
     = Inl AttributeError
   \<and> fst (main (scripted_world full_environ (JArr []) []) (initial Map.empty)) = 1
   \<and> log (snd (main (scripted_world full_environ (JArr []) []) (initial Map.empty)))
       = [(INFO, Fetching_jobs), (ERROR, Unexpected_error AttributeError)]"
  by (simp add: run_defs)

subsection \<open>C5: the snapshots of the accepted jobs\<close>




subsection \<open>C6: the threshold\<close>



subsection \<open>C7: replies that are not numbers\<close>

text \<open>
  C7 says that every reply whose trimmed text is not a non-negative integer string is
  logged as invalid, and is not treated as the score zero. A reply of blanks is trimmed to
  the empty string, which \<^verbatim>\<open>process_jobs\<close> replaces by \<^verbatim>\<open>"0"\<close>
  (\<^verbatim>\<open>score_str.strip() if score_str else "0"\<close>): the job is logged as skipped with score
  0, and no warning is logged.
\<close>

theorem blank_reply_is_score_zero:
  "py_strip ''  '' = []
   \<and> \<not> py_isdigit (py_strip ''  '')
   \<and> log (snd (process_job (scripted_world full_environ example_body [says ''  '']) 50 1 1
                 (JObj example_job) ([], initial Map.empty)))
       = [(INFO, Processing_job 1 1 (JStr ''Analyst'') (JStr ''Acme'')), (INFO, Skipped_job 0)]"
  by (simp add: run_defs string_defs)

text \<open>
  C7, amended: when the scorer is available, a reply whose trimmed text is not empty and
  fails \<^verbatim>\<open>isdigit\<close> is logged as an invalid score, at level warning, and the job is not
  accepted: the list and the files stay as they were, and the loop goes on. A reply whose
  trimmed text is empty is replaced by \<^verbatim>\<open>"0"\<close> and handled as the score zero: with a
  positive minimum score the job is logged as skipped with score 0.
\<close>

theorem invalid_reply_not_accepted:
  assumes "the_scorer w s = Inr k"
    and "scorer_reply w s job = Api_returns (Some text # others)"
    and "py_strip text = r"
  shows "(r \<noteq> [] \<and> \<not> py_isdigit r \<longrightarrow>
            process_job w min_score total_jobs i (JObj job) (good_jobs, s) =
              (good_jobs, logger WARNING (Invalid_score r) (scored_state i total_jobs job k s)))
       \<and> (r = [] \<and> 0 < min_score \<longrightarrow>
            process_job w min_score total_jobs i (JObj job) (good_jobs, s) =
              (good_jobs, logger INFO (Skipped_job 0) (scored_state i total_jobs job k s)))"
proof -
  have zero: "''0'' \<noteq> []" "list_all is_decimal ''0''" "decimal_value ''0'' = 0"
    by (simp_all add: is_decimal_def decimal_value_def digit_value_def)
  show ?thesis
    using assms
    by (simp add: process_job_scored filter_job_invalid filter_job_decimal [OF zero(1,2)] zero(3)
          after_filter_def)
qed

text \<open>
  The reply \<^verbatim>\<open>N/A\<close> is logged as invalid; the empty reply is skipped with score 0.
\<close>

theorem invalid_reply_not_accepted_witness:
  "process_job (scripted_world full_environ example_body [says ''N/A'']) 50 1 1
      (JObj example_job) ([], initial Map.empty)
     = ([], logger WARNING (Invalid_score ''N/A'')
              (scored_state 1 1 example_job ''key'' (initial Map.empty)))
   \<and> process_job (scripted_world full_environ example_body [says []]) 50 1 1
      (JObj example_job) ([], initial Map.empty)
     = ([], logger INFO (Skipped_job 0)
              (scored_state 1 1 example_job ''key'' (initial Map.empty)))"
proof -
  let ?wa = "scripted_world full_environ example_body [says ''N/A'']"
  let ?wb = "scripted_world full_environ example_body [says []]"
  have sa: "the_scorer ?wa (initial Map.empty) = Inr ''key''" by (rule example_scorer)
  have sb: "the_scorer ?wb (initial Map.empty) = Inr ''key''" by (rule example_scorer)
  have ra: "scorer_reply ?wa (initial Map.empty) example_job = Api_returns (Some ''N/A'' # [])"
    by (rule example_reply)
  have rb: "scorer_reply ?wb (initial Map.empty) example_job = Api_returns (Some [] # [])"
    by (rule example_reply)
  have e: "py_strip [] = []" by (simp add: py_strip_def)
  note a = invalid_reply_not_accepted [OF sa ra example_strings(5),
      where min_score = 50 and total_jobs = 1 and i = 1 and good_jobs = "[]"]
  note b = invalid_reply_not_accepted [OF sb rb e,
      where min_score = 50 and total_jobs = 1 and i = 1 and good_jobs = "[]"]
  from a b show ?thesis
    by (simp add: example_strings)
qed

subsection \<open>C8: exceptions of the scoring call\<close>

text \<open>
  C8: when the scorer is available and the scoring call for a job record ends in an
  exception \<open>e\<close> (the call raises, or its reply has no choice or no content),
  \<^verbatim>\<open>score_job\<close> logs the error with the title and the company of the job and returns
  \<^verbatim>\<open>"0"\<close>; with a positive minimum score (50 in \<^verbatim>\<open>main\<close>) the job is then skipped
  with score 0, the accepted list and the files stay as they were, and the loop goes on
  with the jobs that follow.
\<close>

theorem scoring_exception_is_score_zero:
  assumes "the_scorer w s = Inr k"
    and "scoring_failure (scorer_reply w s job) = Some e"
    and "0 < min_score"
  shows "score_job w (company_name_of job) (job_title_of job) (job_description_of job) s =
           (''0'', logger ERROR (Error_scoring_job (job_title_of job) (company_name_of job) e)
                     (s\<lparr>calls := calls s + 1\<rparr>))
       \<and> process_job w min_score total_jobs i (JObj job) (good_jobs, s) =
           (good_jobs,
            logger INFO (Skipped_job 0)
              (logger ERROR (Error_scoring_job (job_title_of job) (company_name_of job) e)
                 (scored_state i total_jobs job k s)))
       \<and> process_loop w min_score total_jobs i (JObj job # jobs) (good_jobs, s) =
           process_loop w min_score total_jobs (Suc i) jobs
             (good_jobs,
              logger INFO (Skipped_job 0)
                (logger ERROR (Error_scoring_job (job_title_of job) (company_name_of job) e)
                   (scored_state i total_jobs job k s)))"
proof -
  have zero: "''0'' \<noteq> []" "list_all is_decimal ''0''" "decimal_value ''0'' = 0"
    by (simp_all add: is_decimal_def decimal_value_def digit_value_def)
  have sj: "score_job w (company_name_of job) (job_title_of job) (job_description_of job) s =
           (''0'', logger ERROR (Error_scoring_job (job_title_of job) (company_name_of job) e)
                     (s\<lparr>calls := calls s + 1\<rparr>))"
    using assms(2) by (simp add: score_job_failure scorer_reply_def)
  have pj: "process_job w min_score total_jobs i (JObj job) (good_jobs, s) =
           (good_jobs,
            logger INFO (Skipped_job 0)
              (logger ERROR (Error_scoring_job (job_title_of job) (company_name_of job) e)
                 (scored_state i total_jobs job k s)))"
    using assms
    by (simp add: process_job_failed filter_job_decimal [OF zero(1,2)] zero(3) after_filter_def)
  from sj pj show ?thesis by simp
qed

text \<open>
  Two jobs, the call for the first raises, the reply for the second is 80: the first is
  skipped with score 0, the second is accepted.
\<close>

theorem scoring_exception_is_score_zero_witness:
  "fst (process_loop (scripted_world full_environ example_body [Api_raises, says ''80'']) 50 2 1
          [JObj example_job, JObj example_job] ([], initial Map.empty))
     = [ScoredJob example_job ''80'']
   \<and> log (snd (process_loop (scripted_world full_environ example_body [Api_raises, says ''80''])
                 50 2 1 [JObj example_job, JObj example_job] ([], initial Map.empty)))
     = [(INFO, Processing_job 1 2 (JStr ''Analyst'') (JStr ''Acme'')),
        (ERROR, Error_scoring_job (JStr ''Analyst'') (JStr ''Acme'') APIError),
        (INFO, Skipped_job 0),
        (INFO, Processing_job 2 2 (JStr ''Analyst'') (JStr ''Acme'')),
        (INFO, Added_job 80)]"
proof -
  let ?w = "scripted_world full_environ example_body [Api_raises, says ''80'']"
  have s: "the_scorer ?w (initial Map.empty) = Inr ''key''" by (rule example_scorer)
  have f: "scoring_failure (scorer_reply ?w (initial Map.empty) example_job) = Some APIError"
    by (simp add: scorer_reply_def scoring_failure_def initial_def)
  have m: "(0::int) < 50" by simp
  have str: "py_strip ''80'' = ''80''" "list_all is_decimal ''80''" "decimal_value ''80'' = 80"
    by (simp_all add: py_strip_def isspace_def is_decimal_def decimal_value_def digit_value_def)
  from scoring_exception_is_score_zero [OF s f m,
      where total_jobs = 2 and i = 1 and good_jobs = "[]" and jobs = "[JObj example_job]"]
  show ?thesis
    by (simp add: run_defs scored_state_def logger_def ScoredJob_def string_defs)
qed

subsection \<open>C9: missing fields\<close>

text \<open>
  C9: a job record is processed exactly as the record \<open>with_placeholders job\<close>, which has
  the placeholders filled in for the fields it lacks: a missing \<^verbatim>\<open>job_title\<close> is
  \<^verbatim>\<open>Unknown Title\<close>, a missing \<^verbatim>\<open>name\<close> is \<^verbatim>\<open>Unknown Company\<close>, a missing
  \<^verbatim>\<open>job_desc\<close> is the empty string. So nothing fails, and the record is scored, and
  accepted or not, like any other.
\<close>

theorem missing_fields_placeholders:
  "process_job w min_score total_jobs i (JObj job) gs =
     process_job w min_score total_jobs i (JObj (with_placeholders job)) gs
   \<and> (map_of job ''job_title'' = None \<longrightarrow>
        job_title_of job = JStr ''Unknown Title''
        \<and> map_of (with_placeholders job) ''job_title'' = Some (JStr ''Unknown Title''))
   \<and> (map_of job ''name'' = None \<longrightarrow>
        company_name_of job = JStr ''Unknown Company''
        \<and> map_of (with_placeholders job) ''name'' = Some (JStr ''Unknown Company''))
   \<and> (map_of job ''job_desc'' = None \<longrightarrow>
        job_description_of job = JStr []
        \<and> map_of (with_placeholders job) ''job_desc'' = Some (JStr []))"
proof -
  have "process_job w min_score total_jobs i (JObj job) gs =
     process_job w min_score total_jobs i (JObj (with_placeholders job)) gs"
    by (simp add: process_job_def job_title_of_def company_name_of_def job_description_of_def
          job_id_of_def dict_get_with_placeholders)
  moreover have "map_of job ''job_title'' = None \<longrightarrow>
        job_title_of job = JStr ''Unknown Title''
        \<and> map_of (with_placeholders job) ''job_title'' = Some (JStr ''Unknown Title'')"
    by (simp add: job_title_of_def dict_get_def with_placeholders_def placeholders_def map_add_def)
  moreover have "map_of job ''name'' = None \<longrightarrow>
        company_name_of job = JStr ''Unknown Company''
        \<and> map_of (with_placeholders job) ''name'' = Some (JStr ''Unknown Company'')"
    by (simp add: company_name_of_def dict_get_def with_placeholders_def placeholders_def
          map_add_def)
  moreover have "map_of job ''job_desc'' = None \<longrightarrow>
        job_description_of job = JStr []
        \<and> map_of (with_placeholders job) ''job_desc'' = Some (JStr [])"
    by (simp add: job_description_of_def dict_get_def with_placeholders_def placeholders_def
          map_add_def)
  ultimately show ?thesis by blast
qed

text \<open>
  A record with an identifier only, and the reply 100: it is accepted with the two
  placeholders as its title and its company.
\<close>

theorem missing_fields_placeholders_witness:
  "job_title_of [(''job_id'', JStr ''12345'')] = JStr ''Unknown Title''
   \<and> company_name_of [(''job_id'', JStr ''12345'')] = JStr ''Unknown Company''
   \<and> job_description_of [(''job_id'', JStr ''12345'')] = JStr []
   \<and> fst (process_job (scripted_world full_environ example_body [says ''100'']) 50 1 1
            (JObj [(''job_id'', JStr ''12345'')]) ([], initial Map.empty))
       = [JObj [(''jobTitle'', JStr ''Unknown Title''),
                (''companyName'', JStr ''Unknown Company''),
                (''score'', JStr ''100''),
                (''url'', JStr (generate_job_url (JStr ''12345'')))]]"
proof -
  let ?w = "scripted_world full_environ example_body [says ''100'']"
  let ?job = "[(''job_id'', JStr ''12345'')]"
  have filled: "fst (process_job ?w 50 1 1 (JObj (with_placeholders ?job)) ([], initial Map.empty))
       = [JObj [(''jobTitle'', JStr ''Unknown Title''),
                (''companyName'', JStr ''Unknown Company''),
                (''score'', JStr ''100''),
                (''url'', JStr (generate_job_url (JStr ''12345'')))]]"
    by (simp add: run_defs with_placeholders_def placeholders_def string_defs)
  from missing_fields_placeholders [of ?w 50 1 1 ?job "([], initial Map.empty)"] filled
  show ?thesis by simp
qed

subsection \<open>C10: scores above 100\<close>

text \<open>
  C10: when the scorer is available, the trimmed reply \<open>r\<close> is a string of decimal
  digits that denotes a number above 100, and the minimum score is at most 100, then the
  reply passes \<^verbatim>\<open>isdigit\<close>, the job is accepted, and the entry appended to the
  list, and written to \<^verbatim>\<open>goodJobs.json\<close> with it, has \<open>r\<close> itself as its score:
  nothing bounds or clamps the score.
\<close>

theorem out_of_range_score_accepted:
  assumes "the_scorer w s = Inr k"
    and "scorer_reply w s job = Api_returns (Some text # others)"
    and "py_strip text = r" and "r \<noteq> []" and "list_all is_decimal r"
    and "100 < decimal_value r" and "min_score \<le> 100"
  shows "py_isdigit r
       \<and> fst (process_job w min_score total_jobs i (JObj job) (good_jobs, s)) =
           good_jobs @ [JObj [(''jobTitle'', job_title_of job),
                              (''companyName'', company_name_of job),
                              (''score'', JStr r),
                              (''url'', JStr (generate_job_url (job_id_of job)))]]
       \<and> files (snd (process_job w min_score total_jobs i (JObj job) (good_jobs, s))) =
           snd (write_json (disk w (Incremental i)) ''goodJobs.json''
                  (jobs_document (fst (process_job w min_score total_jobs i (JObj job) (good_jobs, s))))
                  (files s))"
proof -
  from assms(6,7) have "min_score \<le> decimal_value r" by simp
  with process_job_decimal_result [OF assms(1-5)] decimal_isdigit [OF assms(4,5)]
  show ?thesis
    by (simp add: ScoredJob_def)
qed

text \<open>
  The reply 150 with the minimum score 50.
\<close>

theorem out_of_range_score_accepted_witness:
  "fst (process_job (scripted_world full_environ example_body [says ''150'']) 50 1 1
          (JObj example_job) ([], initial Map.empty))
     = [JObj [(''jobTitle'', JStr ''Analyst''),
              (''companyName'', JStr ''Acme''),
              (''score'', JStr ''150''),
              (''url'', JStr (generate_job_url (JStr ''12345'')))]]
   \<and> files (snd (process_job (scripted_world full_environ example_body [says ''150'']) 50 1 1
          (JObj example_job) ([], initial Map.empty))) ''goodJobs.json''
     = Some (Doc (JObj [(''jobs'',
          JArr [JObj [(''jobTitle'', JStr ''Analyst''),
                      (''companyName'', JStr ''Acme''),
                      (''score'', JStr ''150''),
                      (''url'', JStr (generate_job_url (JStr ''12345'')))]])]))"
proof -
  let ?w = "scripted_world full_environ example_body [says ''150'']"
  have ne: "''150'' \<noteq> []" by simp
  have s: "the_scorer ?w (initial Map.empty) = Inr ''key''" by (rule example_scorer)
  have r: "scorer_reply ?w (initial Map.empty) example_job = Api_returns (Some ''150'' # [])"
    by (rule example_reply)
  have big: "100 < decimal_value ''150''" by (simp add: example_strings)
  have low: "(50::int) \<le> 100" by simp
  from out_of_range_score_accepted [OF s r example_strings(4) ne example_strings(10) big low,
      where total_jobs = 1 and i = 1 and good_jobs = "[]"]
  show ?thesis
    by (simp add: write_json_def jobs_document_def job_title_of_def company_name_of_def
          job_id_of_def dict_get_def example_job_def)
qed

end
